theory Spec2Isabelle
  imports Main "HOL-Library.Word"
begin

section \<open>Data model of the request pipeline\<close>

text \<open>
  The program is the \<^verbatim>\<open>main.go\<close> of the \<^verbatim>\<open>vecro-mongodb\<close> container image: a go-kit
  service whose endpoint is wrapped by a tracing middleware and served over HTTP.
  Everything the Go code does to the outside (spans, log lines, metric updates, store
  calls) is recorded, in order, in the \<open>events\<close> of an explicit world state.
\<close>

type_synonym header = "(string \<times> string) list"

record http_request =
  req_header :: header

text \<open>A valid OpenTelemetry span context: the identifiers of a trace and of a span in it.\<close>

record span_context =
  sc_trace_id :: nat
  sc_span_id :: nat

text \<open>
  A Go \<^verbatim>\<open>context.Context\<close>, reduced to the three values this program stores in it or reads
  from it: the request under \<^verbatim>\<open>contextKeyRequest\<close>, the current span (OpenTelemetry's own
  key) and the response size under \<^verbatim>\<open>httptransport.ContextKeyResponseSize\<close>. \<open>None\<close> is
  an absent key.
\<close>

record ctx =
  ctx_request :: "http_request option"
  ctx_span :: "span_context option"
  ctx_response_size :: "64 word option"

datatype error =
    StoreOpError string | DecodeError | ConnectError string | ConfigError string
  | MetricError string

datatype event =
    SpanStart string string span_context "span_context option"
  | SpanEnd span_context
  | GatewayRead
  | GatewayWrite
  | LogEntry string
  | LogExit string "error option" nat
  | RequestCountAdd nat
  | LatencyCounterAdd nat
  | LatencyHistogramObserve nat
  | LogLine string
  | ThroughputAdd int

text \<open>
  The world: the ordered effects so far, the source of fresh span and trace identifiers,
  the clock (read by \<^verbatim>\<open>time.Now\<close>), and the state of the backing store.
\<close>

record 's world =
  events :: "event list"
  next_id :: nat
  clock :: nat
  store :: 's

text \<open>
  A Go call either returns or panics. A go-kit endpoint returns
  \<^verbatim>\<open>(interface{}, error)\<close>: the sum \<open>error + 'r\<close>, \<open>Inl\<close> the non-nil error.
\<close>

datatype 'a outcome = Return 'a | Panic string

datatype request = BaseRequest string | OtherRequest

record response =
  resp_bytes :: nat
  resp_ok :: bool

type_synonym 's endpoint =
  "ctx \<Rightarrow> request \<Rightarrow> 's world \<Rightarrow> (error + response) outcome \<times> 's world"

section \<open>The tracing middleware\<close>

text \<open>
  \<^verbatim>\<open>tracer.Start(ctx, spanName)\<close>: the parent of the new span is the span context the
  given context carries; with none the span is a root with a fresh trace identifier.
  A child is in the trace of its parent. The returned context carries the new span.
\<close>

definition new_span_context :: "span_context option \<Rightarrow> nat \<Rightarrow> span_context" where
  "new_span_context parent fresh =
     (case parent of
        Some p \<Rightarrow> \<lparr>sc_trace_id = sc_trace_id p, sc_span_id = fresh\<rparr>
      | None \<Rightarrow> \<lparr>sc_trace_id = fresh + 1, sc_span_id = fresh\<rparr>)"

definition tracer_Start ::
  "string \<Rightarrow> ctx \<Rightarrow> string \<Rightarrow> 's world \<Rightarrow> ctx \<times> span_context \<times> 's world" where
  "tracer_Start tracerName c spanName w =
     (let parent = ctx_span c;
          sc = new_span_context parent (next_id w)
      in (c\<lparr>ctx_span := Some sc\<rparr>, sc,
          w\<lparr>events := events w @ [SpanStart tracerName spanName sc parent],
            next_id := next_id w + 2\<rparr>))"

definition span_End :: "span_context \<Rightarrow> 's world \<Rightarrow> 's world" where
  "span_End sc w = w\<lparr>events := events w @ [SpanEnd sc]\<rparr>"

text \<open>
  \<^verbatim>\<open>tracingMiddleware\<close> (main.go, lines 63 to 78). The package-level \<^verbatim>\<open>propagator\<close> is
  declared outside main.go, so its \<^verbatim>\<open>Extract\<close> is the parameter \<open>propagator\<close>. The
  deferred \<^verbatim>\<open>span.End()\<close> runs when the closure returns and when \<open>next\<close> panics; the
  panic then goes on to the caller.
\<close>

definition tracingMiddleware ::
  "(ctx \<Rightarrow> header \<Rightarrow> ctx) \<Rightarrow> string \<Rightarrow> string \<Rightarrow> 's endpoint \<Rightarrow> 's endpoint" where
  "tracingMiddleware propagator tracerName spanName next c request w =
     (let c1 = (case ctx_request c of
                  Some r \<Rightarrow> propagator c (req_header r)
                | None \<Rightarrow> c);
          (c2, span, w1) = tracer_Start tracerName c1 spanName w;
          (res, w2) = next c2 request w1
      in (res, span_End span w2))"

text \<open>
  The W3C trace-context propagator that \<^verbatim>\<open>initTracer\<close> installs: \<^verbatim>\<open>Extract\<close> reads the
  \<^verbatim>\<open>traceparent\<close> header (\<^verbatim>\<open>http.Header\<close> keeps keys in canonical form) and returns the
  context unchanged when the header is absent or does not parse. The parsing of the
  header value belongs to the library and is the parameter \<open>parse\<close>.
\<close>

definition traceContext_Extract ::
  "(string \<Rightarrow> span_context option) \<Rightarrow> ctx \<Rightarrow> header \<Rightarrow> ctx" where
  "traceContext_Extract parse c h =
     (case map_of h ''Traceparent'' of
        None \<Rightarrow> c
      | Some v \<Rightarrow> (case parse v of
                     None \<Rightarrow> c
                   | Some sc \<Rightarrow> c\<lparr>ctx_span := Some sc\<rparr>))"

text \<open>
  The trace context an inbound call carries from outside: what the
  \<^verbatim>\<open>traceparent\<close> header of its request parses to, if the context holds a request and
  the request has such a header.
\<close>

definition extracted :: "(string \<Rightarrow> span_context option) \<Rightarrow> ctx \<Rightarrow> span_context option" where
  "extracted parse c =
     (case ctx_request c of
        None \<Rightarrow> None
      | Some r \<Rightarrow> (case map_of (req_header r) ''Traceparent'' of
                     None \<Rightarrow> None
                   | Some v \<Rightarrow> parse v))"

section \<open>Startup: \<^verbatim>\<open>initTracer\<close> and \<^verbatim>\<open>main\<close>\<close>

text \<open>
  \<^verbatim>\<open>log.Println\<close> writes its operands separated by spaces. A logged line is kept as that
  text, without the time stamp the logger puts in front and without the final newline.
\<close>

fun println :: "string list \<Rightarrow> string" where
  "println [] = []"
| "println [x] = x"
| "println (x # y # ys) = x @ '' '' @ println (y # ys)"

fun show_nat :: "nat \<Rightarrow> string" where
  "show_nat n =
     (if n < 10 then [''0123456789'' ! n]
      else show_nat (n div 10) @ [''0123456789'' ! (n mod 10)])"

declare show_nat.simps [simp del]

definition show_int :: "int \<Rightarrow> string" where
  "show_int i = (if i < 0 then CHR ''-'' # show_nat (nat (- i)) else show_nat (nat i))"

text \<open>
  What the process finds around it when it starts: the environment variables
  (\<open>None\<close> is an unset variable) and the answers of the collaborators it calls, the
  Jaeger exporter constructor and the MongoDB driver.
\<close>

record client_options =
  co_uri :: string
  co_username :: string
  co_password :: string

record os =
  environ :: "string \<rightharpoonup> string"
  jaeger_New :: "string option"
  mongo_Connect :: "client_options \<Rightarrow> error option"
  client_Ping :: "client_options \<Rightarrow> error option"

record collection =
  coll_database :: string
  coll_name :: string

text \<open>The \<^verbatim>\<open>baseService\<close> struct literal of main.go, lines 210 to 214.\<close>

record baseService =
  dbCollection :: collection
  dbReadOps :: int
  dbWriteOps :: int

text \<open>
  What \<^verbatim>\<open>main\<close> has built when it calls \<^verbatim>\<open>http.ListenAndServe\<close>: the service, the
  address, and the labels of the four Prometheus metrics. \<open>Serving\<close> is that call;
  \<open>Fatal\<close> is a panic before it. \<open>connect_with\<close> holds the options of the MongoDB
  client of lines 185 to 191.
\<close>

record server =
  srv_svc :: baseService
  srv_listenAddress :: string
  srv_subsystem :: string
  srv_name :: string

datatype main_result = Fatal error | Serving server

record startup =
  log_lines :: "string list"
  tracer_serviceName :: string
  connect_with :: client_options
  result :: main_result

text \<open>
  The registration of the metrics (lines 139 to 176). \<^verbatim>\<open>kitprometheus.NewCounterFrom\<close>
  and \<^verbatim>\<open>NewHistogramFrom\<close> build the descriptor of the metric and register it with
  \<^verbatim>\<open>prometheus.MustRegister\<close>, which panics on an invalid descriptor: the full name,
  namespace, subsystem and name joined by underscores, must be a metric name, and the
  value of the constant label must be valid UTF-8.
\<close>

definition BuildFQName :: "string \<Rightarrow> string \<Rightarrow> string \<Rightarrow> string" where
  "BuildFQName namespace subsystem name =
     (if name = [] then []
      else if namespace \<noteq> [] \<and> subsystem \<noteq> [] then namespace @ ''_'' @ subsystem @ ''_'' @ name
      else if namespace \<noteq> [] then namespace @ ''_'' @ name
      else if subsystem \<noteq> [] then subsystem @ ''_'' @ name
      else name)"

definition name_start_char :: "char \<Rightarrow> bool" where
  "name_start_char c =
     (let n = (of_char c :: nat)
      in (65 \<le> n \<and> n \<le> 90) \<or> (97 \<le> n \<and> n \<le> 122) \<or> n = 95 \<or> n = 58)"

definition name_char :: "char \<Rightarrow> bool" where
  "name_char c =
     (let n = (of_char c :: nat) in name_start_char c \<or> (48 \<le> n \<and> n \<le> 57))"

definition IsValidMetricName :: "string \<Rightarrow> bool" where
  "IsValidMetricName s =
     (case s of [] \<Rightarrow> False | c # cs \<Rightarrow> name_start_char c \<and> list_all name_char cs)"

definition continuation :: "nat \<Rightarrow> bool" where
  "continuation b = (128 \<le> b \<and> b \<le> 191)"

fun utf8_bytes :: "nat list \<Rightarrow> bool" where
  "utf8_bytes [] = True"
| "utf8_bytes (b # bs) =
     (if b < 128 then utf8_bytes bs
      else if 194 \<le> b \<and> b \<le> 223 then
        (case bs of
           b1 # r \<Rightarrow> continuation b1 \<and> utf8_bytes r
         | _ \<Rightarrow> False)
      else if 224 \<le> b \<and> b \<le> 239 then
        (case bs of
           b1 # b2 # r \<Rightarrow>
             (if b = 224 then 160 \<le> b1 \<and> b1 \<le> 191
              else if b = 237 then 128 \<le> b1 \<and> b1 \<le> 159
              else continuation b1)
             \<and> continuation b2 \<and> utf8_bytes r
         | _ \<Rightarrow> False)
      else if 240 \<le> b \<and> b \<le> 244 then
        (case bs of
           b1 # b2 # b3 # r \<Rightarrow>
             (if b = 240 then 144 \<le> b1 \<and> b1 \<le> 191
              else if b = 244 then 128 \<le> b1 \<and> b1 \<le> 143
              else continuation b1)
             \<and> continuation b2 \<and> continuation b3 \<and> utf8_bytes r
         | _ \<Rightarrow> False)
      else False)"

definition ValidString :: "string \<Rightarrow> bool" where
  "ValidString s = utf8_bytes (map of_char s)"

definition register_metric :: "string \<Rightarrow> string \<Rightarrow> string \<Rightarrow> error option" where
  "register_metric subsystem metric name =
     (let fqName = BuildFQName ''vecro_base'' subsystem metric
      in if \<not> IsValidMetricName fqName then Some (MetricError fqName)
         else if \<not> ValidString name then Some (MetricError name)
         else None)"

fun first_error :: "error option list \<Rightarrow> error option" where
  "first_error [] = None"
| "first_error (None # es) = first_error es"
| "first_error (Some err # es) = Some err"

definition register_metrics :: "string \<Rightarrow> string \<Rightarrow> error option" where
  "register_metrics subsystem name =
     first_error
       [register_metric subsystem ''request_count'' name,
        register_metric subsystem ''latency_counter'' name,
        register_metric subsystem ''latency_histogram'' name,
        register_metric subsystem ''throughput'' name]"

text \<open>
  \<^verbatim>\<open>initTracer\<close> (lines 34 to 61): \<^verbatim>\<open>os.Getenv\<close> gives the empty string for an unset
  variable; a failed exporter is logged and startup goes on.
\<close>

definition initTracer :: "os \<Rightarrow> string \<times> string list" where
  "initTracer sys =
     (let serviceName = (case environ sys ''VECRO_NAME'' of None \<Rightarrow> [] | Some v \<Rightarrow> v);
          serviceName = (if serviceName = [] then ''default-service'' else serviceName);
          logged = (case jaeger_New sys of
                      Some err \<Rightarrow> [''failed to create Jaeger exporter: '' @ err]
                    | None \<Rightarrow> [println [''success to build jaeger'']])
      in (serviceName, logged))"

text \<open>
  \<^verbatim>\<open>main\<close> up to the call of \<^verbatim>\<open>http.ListenAndServe\<close> (lines 80 to 239). The helpers
  \<^verbatim>\<open>getEnvInt\<close> and \<^verbatim>\<open>getEnvString\<close> are declared outside main.go and are the
  parameters \<open>getEnvInt\<close> and \<open>getEnvString\<close>; they read the environment, which is passed
  to them. \<^verbatim>\<open>main\<close> drops the error each of them returns. \<^verbatim>\<open>panic(err)\<close> ends the
  process, and so does the panic of the metric registration: the result \<open>Fatal err\<close>.
\<close>

definition main ::
  "((string \<rightharpoonup> string) \<Rightarrow> string \<Rightarrow> int \<Rightarrow> int \<times> error option) \<Rightarrow>
   ((string \<rightharpoonup> string) \<Rightarrow> string \<Rightarrow> string \<Rightarrow> string \<times> error option) \<Rightarrow>
   os \<Rightarrow> startup" where
  "main getEnvInt getEnvString sys =
     (let (serviceName, log0) = initTracer sys;
          databaseName = ''data'';
          collectionName = ''items'';
          dbReadOps = fst (getEnvInt (environ sys) ''VECRO_DB_READ_OPS'' 0);
          dbWriteOps = fst (getEnvInt (environ sys) ''VECRO_DB_WRITE_OPS'' 0);
          dbUser = fst (getEnvString (environ sys) ''VECRO_DB_USER'' []);
          dbPassword = fst (getEnvString (environ sys) ''VECRO_DB_PASSWORD'' []);
          dbCollection = fst (getEnvString (environ sys) ''VECRO_DB_COLLECTION'' []);
          log1 = log0 @
            [println [''Info db read ops:'', show_int dbReadOps],
             println [''Info db write ops:'', show_int dbWriteOps],
             println [''Info db user:'', dbUser],
             println [''Info db password:'', dbPassword],
             println [''Info db collection:'', dbCollection]];
          listenAddress = fst (getEnvString (environ sys) ''VECRO_LISTEN_ADDRESS'' '':8080'');
          log2 = log1 @ [println [''Info listen_address:'', listenAddress]];
          subsystem = fst (getEnvString (environ sys) ''VECRO_SUBSYSTEM'' ''subsystem'');
          name = fst (getEnvString (environ sys) ''VECRO_NAME'' ''name'');
          log3 = log2 @ [println [''Info name:'', name, ''subsystem:'', subsystem]];
          clientOpts = \<lparr>co_uri = ''mongodb://localhost'',
                        co_username = ''root'', co_password = ''password''\<rparr>
      in case register_metrics subsystem name of
           Some err \<Rightarrow>
             \<lparr>log_lines = log3, tracer_serviceName = serviceName,
              connect_with = clientOpts, result = Fatal err\<rparr>
         | None \<Rightarrow>
        (case mongo_Connect sys clientOpts of
           Some err \<Rightarrow>
             \<lparr>log_lines = log3, tracer_serviceName = serviceName,
              connect_with = clientOpts, result = Fatal err\<rparr>
         | None \<Rightarrow>
             (case client_Ping sys clientOpts of
                Some err \<Rightarrow>
                  \<lparr>log_lines = log3, tracer_serviceName = serviceName,
                   connect_with = clientOpts, result = Fatal err\<rparr>
              | None \<Rightarrow>
                  (let collection = \<lparr>coll_database = databaseName, coll_name = collectionName\<rparr>;
                       svc = \<lparr>dbCollection = collection, dbReadOps = dbReadOps,
                              dbWriteOps = dbWriteOps\<rparr>
                   in \<lparr>log_lines = log3 @ [println [''Info msg:'', ''HTTP'', ''addr:'', listenAddress]],
                       tracer_serviceName = serviceName,
                       connect_with = clientOpts,
                       result = Serving \<lparr>srv_svc = svc, srv_listenAddress = listenAddress,
                                         srv_subsystem = subsystem, srv_name = name\<rparr>\<rparr>))))"

subsection \<open>The environment helpers\<close>

text \<open>
  \<^verbatim>\<open>strconv.Atoi\<close>: an optional sign and at least one decimal digit, nothing else, and a
  value that fits the 64-bit \<^verbatim>\<open>int\<close>.
\<close>

definition digit_val :: "char \<Rightarrow> nat option" where
  "digit_val c =
     (let n = (of_char c :: nat) in if 48 \<le> n \<and> n \<le> 57 then Some (n - 48) else None)"

fun digits_val :: "nat \<Rightarrow> string \<Rightarrow> nat option" where
  "digits_val acc [] = Some acc"
| "digits_val acc (c # cs) =
     (case digit_val c of None \<Rightarrow> None | Some d \<Rightarrow> digits_val (10 * acc + d) cs)"

definition atoi :: "string \<Rightarrow> int option" where
  "atoi s =
     (let (neg, ds) = (case s of
                         c # cs \<Rightarrow> if c = CHR ''-'' then (True, cs)
                                   else if c = CHR ''+'' then (False, cs) else (False, s)
                       | [] \<Rightarrow> (False, s))
      in if ds = [] then None
         else (case digits_val 0 ds of
                 None \<Rightarrow> None
               | Some n \<Rightarrow>
                   (let v = (if neg then - int n else int n)
                    in if - (2 ^ 63) \<le> v \<and> v < 2 ^ 63 then Some v else None)))"

text \<open>
  Modelled from the spec: the helpers \<^verbatim>\<open>getEnvInt\<close> and \<^verbatim>\<open>getEnvString\<close>, which main.go
  calls and does not define. The spec: a malformed or missing environment value is
  tolerated with a fallback default. They return the value together with the error.
\<close>

definition getEnvString ::
  "(string \<rightharpoonup> string) \<Rightarrow> string \<Rightarrow> string \<Rightarrow> string \<times> error option" where
  "getEnvString env key fallback =
     (case env key of
        None \<Rightarrow> (fallback, Some (ConfigError key))
      | Some v \<Rightarrow> (v, None))"

definition getEnvInt ::
  "(string \<rightharpoonup> string) \<Rightarrow> string \<Rightarrow> int \<Rightarrow> int \<times> error option" where
  "getEnvInt env key fallback =
     (case env key of
        None \<Rightarrow> (fallback, Some (ConfigError key))
      | Some v \<Rightarrow> (case atoi v of
                     None \<Rightarrow> (fallback, Some (ConfigError key))
                   | Some n \<Rightarrow> (n, None)))"


section \<open>The workload service and its middlewares\<close>

text \<open>
  Modelled from the spec: the Store Gateway, which main.go reaches through the
  \<^verbatim>\<open>*mongo.Collection\<close> handle and whose operations are not in main.go. The spec's
  contract: \<^verbatim>\<open>ReadOne(context) -> (bytes, error)\<close> and \<^verbatim>\<open>WriteOne(context) -> (bytes, error)\<close>.
  An operation answers with an error message or a byte size, takes some time, and may
  change the store.
\<close>

record 's gateway =
  ReadOne :: "'s \<Rightarrow> (string + nat) \<times> nat \<times> 's"
  WriteOne :: "'s \<Rightarrow> (string + nat) \<times> nat \<times> 's"

datatype gw_op = Read | Write

definition gateway_call :: "'s gateway \<Rightarrow> gw_op \<Rightarrow> 's \<Rightarrow> (string + nat) \<times> nat \<times> 's" where
  "gateway_call gw op st = (case op of Read \<Rightarrow> ReadOne gw st | Write \<Rightarrow> WriteOne gw st)"

definition op_event :: "gw_op \<Rightarrow> event" where
  "op_event op = (case op of Read \<Rightarrow> GatewayRead | Write \<Rightarrow> GatewayWrite)"

text \<open>
  What the gateway would answer to a sequence of operations issued one after the other
  from a given store: the reference against which the service is stated. It does not
  stop at a failure.
\<close>

fun replies :: "'s gateway \<Rightarrow> gw_op list \<Rightarrow> 's \<Rightarrow> (string + nat) list" where
  "replies gw [] st = []"
| "replies gw (op # ops) st =
     (case gateway_call gw op st of (r, took, st') \<Rightarrow> r # replies gw ops st')"


type_synonym 's service =
  "ctx \<Rightarrow> string \<Rightarrow> 's world \<Rightarrow> (error + response) \<times> 's world"

text \<open>
  Modelled from the spec: \<^verbatim>\<open>baseService.Execute\<close>, of which main.go holds only the struct
  literal. The spec (4.1): \<open>readOps\<close> calls of the gateway's read operation and
  \<open>writeOps\<close> calls of its write operation, one after the other; the byte sizes of all
  operations are added up in the response; the first failing call fails the whole
  request with a store error and nothing is rolled back. The counts are Go \<^verbatim>\<open>int\<close>s: a
  loop up to a negative count runs no operation.
\<close>

fun run_ops ::
  "'s gateway \<Rightarrow> gw_op list \<Rightarrow> nat \<Rightarrow> 's world \<Rightarrow> (error + nat) \<times> 's world" where
  "run_ops gw [] acc w = (Inr acc, w)"
| "run_ops gw (op # ops) acc w =
     (case gateway_call gw op (store w) of
        (r, took, st') \<Rightarrow>
          (let w' = w\<lparr>events := events w @ [op_event op],
                       clock := clock w + took, store := st'\<rparr>
           in case r of
                Inl msg \<Rightarrow> (Inl (StoreOpError msg), w')
              | Inr n \<Rightarrow> run_ops gw ops (acc + n) w'))"

definition workload :: "baseService \<Rightarrow> gw_op list" where
  "workload svc =
     replicate (nat (dbReadOps svc)) Read @ replicate (nat (dbWriteOps svc)) Write"

definition Execute :: "'s gateway \<Rightarrow> baseService \<Rightarrow> 's service" where
  "Execute gw svc c payload w =
     (case run_ops gw (workload svc) 0 w of
        (Inl err, w') \<Rightarrow> (Inl err, w')
      | (Inr n, w') \<Rightarrow> (Inr \<lparr>resp_bytes = n, resp_ok = True\<rparr>, w'))"

text \<open>
  Modelled from the spec: \<^verbatim>\<open>loggingMiddleware\<close>, called and not defined in main.go. The
  spec (4.2): on entry it logs the call name, on exit the result or error and the
  elapsed duration, and it hands back the response and the error unchanged.
\<close>

definition loggingMiddleware :: "'s service \<Rightarrow> 's service" where
  "loggingMiddleware next c payload w =
     (let begin = clock w;
          w1 = w\<lparr>events := events w @ [LogEntry ''Execute'']\<rparr>;
          (res, w2) = next c payload w1
      in (res, w2\<lparr>events := events w2 @ [LogExit ''Execute'' (case res of Inl err \<Rightarrow> Some err | Inr resp \<Rightarrow> None)
                                (clock w2 - begin)]\<rparr>))"

text \<open>
  Modelled from the spec: \<^verbatim>\<open>instrumentingMiddleware\<close>, called and not defined in
  main.go. The spec (4.3): it takes a start time stamp, delegates, and then, whatever
  the outcome, adds one to the request counter, adds the elapsed time to the latency
  counter and records it in the latency distribution.
\<close>

definition instrumentingMiddleware :: "'s service \<Rightarrow> 's service" where
  "instrumentingMiddleware next c payload w =
     (let begin = clock w;
          (res, w1) = next c payload w;
          took = clock w1 - begin
      in (res, w1\<lparr>events := events w1 @
             [RequestCountAdd 1, LatencyCounterAdd took, LatencyHistogramObserve took]\<rparr>))"

text \<open>
  Modelled from the spec: \<^verbatim>\<open>makeBaseEndPoint\<close>, called and not defined in main.go. The
  spec (4.5): it narrows the generic request to the service's request type, failing
  with a decode error when the shape does not match, calls the wrapped service and
  returns its result.
\<close>

definition makeBaseEndPoint :: "'s service \<Rightarrow> 's endpoint" where
  "makeBaseEndPoint svc c request w =
     (case request of
        BaseRequest payload \<Rightarrow> (case svc c payload w of (res, w') \<Rightarrow> (Return res, w'))
      | OtherRequest \<Rightarrow> (Return (Inl DecodeError), w))"

text \<open>
  The composition in \<^verbatim>\<open>main\<close>, lines 209 to 219: the variable \<^verbatim>\<open>svc\<close> is wrapped by the
  logging middleware, the result by the instrumenting middleware, the endpoint made
  from that by the tracing middleware. The middlewares that main.go does not define are
  parameters.
\<close>

definition main_pipeline ::
  "('s service \<Rightarrow> 's service) \<Rightarrow> ('s service \<Rightarrow> 's service) \<Rightarrow>
   ('s service \<Rightarrow> 's endpoint) \<Rightarrow> (ctx \<Rightarrow> header \<Rightarrow> ctx) \<Rightarrow> 's service \<Rightarrow> 's endpoint" where
  "main_pipeline loggingMw instrumentingMw makeEndPoint propagator base =
     (let svc = base;
          svc = loggingMw svc;
          svc = instrumentingMw svc;
          baseEndpoint = makeEndPoint svc;
          baseEndpoint = tracingMiddleware propagator ''vecro-service'' ''BaseRequest'' baseEndpoint
      in baseEndpoint)"

text \<open>
  The pipeline in the words of the spec, for comparison: Tracing around
  Logging(Instrumenting(Base Workload Service)).
\<close>

definition spec_pipeline ::
  "('s service \<Rightarrow> 's service) \<Rightarrow> ('s service \<Rightarrow> 's service) \<Rightarrow>
   ('s service \<Rightarrow> 's endpoint) \<Rightarrow> (ctx \<Rightarrow> header \<Rightarrow> ctx) \<Rightarrow> 's service \<Rightarrow> 's endpoint" where
  "spec_pipeline loggingMw instrumentingMw makeEndPoint propagator base =
     tracingMiddleware propagator ''vecro-service'' ''BaseRequest''
       (makeEndPoint (loggingMw (instrumentingMw base)))"

section \<open>The transport: request hook and finalizer\<close>

text \<open>The \<^verbatim>\<open>ServerBefore\<close> hook of lines 225 to 227 stores the request in the context.\<close>

definition serverBefore :: "ctx \<Rightarrow> http_request \<Rightarrow> ctx" where
  "serverBefore c r = c\<lparr>ctx_request := Some r\<rparr>"

text \<open>
  The conversion \<^verbatim>\<open>float64(responseSize)\<close> of an \<^verbatim>\<open>int64\<close>: the nearest number with a
  53-bit significand, ties to the even one. The result is again a whole number.
\<close>

fun bit_length :: "nat \<Rightarrow> nat" where
  "bit_length n = (if n = 0 then 0 else Suc (bit_length (n div 2)))"

declare bit_length.simps [simp del]

definition float64 :: "int \<Rightarrow> int" where
  "float64 i =
     (let a = nat \<bar>i\<bar>; l = bit_length a
      in if l \<le> 53 then i
         else (let sh = l - 53;
                   q = a div 2 ^ sh;
                   r = a mod 2 ^ sh;
                   half = 2 ^ (sh - 1);
                   q' = (if half < r \<or> (r = half \<and> odd q) then q + 1 else q)
               in sgn i * int (q' * 2 ^ sh)))"

text \<open>The Prometheus counter behind \<^verbatim>\<open>throughput\<close>: \<^verbatim>\<open>Add\<close> panics on a negative value.\<close>

definition throughput_Add :: "int \<Rightarrow> 's world \<Rightarrow> unit outcome \<times> 's world" where
  "throughput_Add v w =
     (if v < 0 then (Panic ''counter cannot decrease in value'', w)
      else (Return (), w\<lparr>events := events w @ [ThroughputAdd v]\<rparr>))"

text \<open>
  The \<^verbatim>\<open>ServerFinalizer\<close> hook of lines 229 to 233. The type assertion
  \<^verbatim>\<open>.(int64)\<close> has no \<^verbatim>\<open>ok\<close> result: it panics when the key is absent.
\<close>

definition serverFinalizer ::
  "ctx \<Rightarrow> int \<Rightarrow> http_request \<Rightarrow> 's world \<Rightarrow> unit outcome \<times> 's world" where
  "serverFinalizer c code r w =
     (case ctx_response_size c of
        None \<Rightarrow> (Panic ''interface conversion: interface {} is nil, not int64'', w)
      | Some responseSize \<Rightarrow>
          (let w1 = w\<lparr>events := events w @
                      [LogLine (println [''Info reponse_size:'', show_int (sint responseSize)])]\<rparr>
           in throughput_Add (float64 (sint responseSize)) w1))"

section \<open>Inputs of the scenarios\<close>

text \<open>
  \<^verbatim>\<open>context.Background()\<close>, a world in which nothing has happened yet, and the stores of
  the spec's scenarios: one whose every call succeeds with 10 bytes, one whose second
  call fails. The store state counts the calls.
\<close>

definition background :: ctx where
  "background = \<lparr>ctx_request = None, ctx_span = None, ctx_response_size = None\<rparr>"

definition idle_world :: "nat world" where
  "idle_world = \<lparr>events = [], next_id = 0, clock = 0, store = 0\<rparr>"

definition steady_gateway :: "nat gateway" where
  "steady_gateway =
     \<lparr>ReadOne = (\<lambda>n. (Inr 10, 1, Suc n)), WriteOne = (\<lambda>n. (Inr 10, 1, Suc n))\<rparr>"

definition second_call_fails :: "nat gateway" where
  "second_call_fails =
     \<lparr>ReadOne = (\<lambda>n. (if n = 1 then Inl ''timeout'' else Inr 10, 1, Suc n)),
      WriteOne = (\<lambda>n. (if n = 1 then Inl ''timeout'' else Inr 10, 1, Suc n))\<rparr>"

definition items :: collection where
  "items = \<lparr>coll_database = ''data'', coll_name = ''items''\<rparr>"

text \<open>A header parser that knows one \<^verbatim>\<open>traceparent\<close> value, and three endpoints.\<close>

definition sample_parse :: "string \<Rightarrow> span_context option" where
  "sample_parse v =
     (if v = ''00-0000000000000000000000000000002a-0000000000000007-01''
      then Some \<lparr>sc_trace_id = 42, sc_span_id = 7\<rparr> else None)"

definition ok_endpoint :: "nat endpoint" where
  "ok_endpoint c request w = (Return (Inr \<lparr>resp_bytes = 10, resp_ok = True\<rparr>), w)"

definition failing_endpoint :: "nat endpoint" where
  "failing_endpoint c request w = (Return (Inl (StoreOpError ''timeout'')), w)"

definition panicking_endpoint :: "nat endpoint" where
  "panicking_endpoint c request w = (Panic ''nil pointer dereference'', w)"

section \<open>Properties of startup\<close>

lemma main_result:
  "result (main gi gs sys) =
     (case register_metrics (fst (gs (environ sys) ''VECRO_SUBSYSTEM'' ''subsystem''))
                            (fst (gs (environ sys) ''VECRO_NAME'' ''name'')) of
        Some err \<Rightarrow> Fatal err
      | None \<Rightarrow>
     (case mongo_Connect sys \<lparr>co_uri = ''mongodb://localhost'', co_username = ''root'',
                               co_password = ''password''\<rparr> of
        Some err \<Rightarrow> Fatal err
      | None \<Rightarrow>
          (case client_Ping sys \<lparr>co_uri = ''mongodb://localhost'', co_username = ''root'',
                                  co_password = ''password''\<rparr> of
             Some err \<Rightarrow> Fatal err
           | None \<Rightarrow>
               Serving
                 \<lparr>srv_svc = \<lparr>dbCollection = \<lparr>coll_database = ''data'', coll_name = ''items''\<rparr>,
                             dbReadOps = fst (gi (environ sys) ''VECRO_DB_READ_OPS'' 0),
                             dbWriteOps = fst (gi (environ sys) ''VECRO_DB_WRITE_OPS'' 0)\<rparr>,
                  srv_listenAddress = fst (gs (environ sys) ''VECRO_LISTEN_ADDRESS'' '':8080''),
                  srv_subsystem = fst (gs (environ sys) ''VECRO_SUBSYSTEM'' ''subsystem''),
                  srv_name = fst (gs (environ sys) ''VECRO_NAME'' ''name'')\<rparr>)))"
  by (simp add: main_def Let_def split: prod.splits option.splits)

lemma main_connect_with:
  "connect_with (main gi gs sys) =
     \<lparr>co_uri = ''mongodb://localhost'', co_username = ''root'', co_password = ''password''\<rparr>"
  by (simp add: main_def Let_def split: prod.splits option.splits)

lemma log_lines_password:
  "\<exists>l0 l1 l2 l3 rest.
     log_lines (main gi gs sys) =
       l0 # l1 # l2 # l3 #
       (''Info db password: '' @ fst (gs (environ sys) ''VECRO_DB_PASSWORD'' [])) # rest"
  by (simp add: main_def initTracer_def Let_def split: prod.splits option.splits)



lemma getEnvString_value: "env key = Some v \<Longrightarrow> fst (getEnvString env key fb) = v"
  by (simp add: getEnvString_def)


lemma register_metrics_fallbacks: "register_metrics ''subsystem'' ''name'' = None"
  by (simp add: register_metrics_def register_metric_def BuildFQName_def IsValidMetricName_def
      name_start_char_def name_char_def ValidString_def Let_def)


text \<open>
  C6. When the backing store cannot be reached at startup, that is when
  \<^verbatim>\<open>mongo.Connect\<close> or, after it, \<^verbatim>\<open>client.Ping\<close> returns an error (an authentication
  failure shows up there), the process ends with a panic and never gets to serve
  without a store. The panic is the one of lines 194 and 198, with the error of the
  store, whenever startup has got as far as the connection, that is when the metrics
  were registered. This holds whatever the environment helpers return.
\<close>

theorem store_connect_failure_is_fatal:
  assumes "mongo_Connect sys \<lparr>co_uri = ''mongodb://localhost'', co_username = ''root'',
                               co_password = ''password''\<rparr> = Some err
           \<or> (mongo_Connect sys \<lparr>co_uri = ''mongodb://localhost'', co_username = ''root'',
                                  co_password = ''password''\<rparr> = None
              \<and> client_Ping sys \<lparr>co_uri = ''mongodb://localhost'', co_username = ''root'',
                                  co_password = ''password''\<rparr> = Some err)"
  shows "(\<exists>e. result (main gi gs sys) = Fatal e)
         \<and> (\<forall>srv. result (main gi gs sys) \<noteq> Serving srv)
         \<and> (register_metrics (fst (gs (environ sys) ''VECRO_SUBSYSTEM'' ''subsystem''))
                               (fst (gs (environ sys) ''VECRO_NAME'' ''name'')) = None \<longrightarrow>
              result (main gi gs sys) = Fatal err)"
  using assms unfolding main_result by (auto split: option.splits)

theorem store_connect_failure_is_fatal_witness:
  "result (main getEnvInt getEnvString
     \<lparr>environ = Map.empty, jaeger_New = None,
      mongo_Connect = (\<lambda>opts. None),
      client_Ping = (\<lambda>opts. Some (ConnectError ''server selection timeout''))\<rparr>)
   = Fatal (ConnectError ''server selection timeout'')"
  using store_connect_failure_is_fatal
    [of "\<lparr>environ = Map.empty, jaeger_New = None,
          mongo_Connect = (\<lambda>opts. None),
          client_Ping = (\<lambda>opts. Some (ConnectError ''server selection timeout''))\<rparr>"
        "ConnectError ''server selection timeout''" getEnvInt getEnvString]
  by (simp add: getEnvString_def register_metrics_fallbacks)




text \<open>
  C9. Whatever the environment holds, and so for every value of
  \<^verbatim>\<open>VECRO_DB_USER\<close>, \<^verbatim>\<open>VECRO_DB_PASSWORD\<close> and \<^verbatim>\<open>VECRO_DB_COLLECTION\<close>, and
  whatever the helpers that read them return, the MongoDB client is built from the URI
  \<^verbatim>\<open>mongodb://localhost\<close> with user \<^verbatim>\<open>root\<close> and password \<^verbatim>\<open>password\<close>, and a service
  that gets to run uses the collection \<^verbatim>\<open>items\<close> of the database \<^verbatim>\<open>data\<close>.
\<close>

theorem db_env_vars_do_not_reach_connection:
  "connect_with (main gi gs sys) =
     \<lparr>co_uri = ''mongodb://localhost'', co_username = ''root'', co_password = ''password''\<rparr>
   \<and> (\<forall>srv. result (main gi gs sys) = Serving srv \<longrightarrow>
          dbCollection (srv_svc srv) = \<lparr>coll_database = ''data'', coll_name = ''items''\<rparr>)"
  unfolding main_result main_connect_with by (auto split: option.splits)

theorem db_env_vars_do_not_reach_connection_witness:
  "\<exists>srv. result (main getEnvInt getEnvString
            \<lparr>environ = [''VECRO_DB_USER'' \<mapsto> ''alice'', ''VECRO_DB_PASSWORD'' \<mapsto> ''hunter2'',
                        ''VECRO_DB_COLLECTION'' \<mapsto> ''orders''],
             jaeger_New = None,
             mongo_Connect = (\<lambda>opts. None), client_Ping = (\<lambda>opts. None)\<rparr>) = Serving srv
      \<and> dbCollection (srv_svc srv) = \<lparr>coll_database = ''data'', coll_name = ''items''\<rparr>
      \<and> connect_with (main getEnvInt getEnvString
            \<lparr>environ = [''VECRO_DB_USER'' \<mapsto> ''alice'', ''VECRO_DB_PASSWORD'' \<mapsto> ''hunter2'',
                        ''VECRO_DB_COLLECTION'' \<mapsto> ''orders''],
             jaeger_New = None,
             mongo_Connect = (\<lambda>opts. None), client_Ping = (\<lambda>opts. None)\<rparr>)
          = \<lparr>co_uri = ''mongodb://localhost'', co_username = ''root'', co_password = ''password''\<rparr>"
proof -
  have "\<exists>srv. result (main getEnvInt getEnvString
            \<lparr>environ = [''VECRO_DB_USER'' \<mapsto> ''alice'', ''VECRO_DB_PASSWORD'' \<mapsto> ''hunter2'',
                        ''VECRO_DB_COLLECTION'' \<mapsto> ''orders''],
             jaeger_New = None,
             mongo_Connect = (\<lambda>opts. None), client_Ping = (\<lambda>opts. None)\<rparr>) = Serving srv"
    unfolding main_result by (simp add: getEnvString_def register_metrics_fallbacks)
  then show ?thesis
    using db_env_vars_do_not_reach_connection
      [of getEnvInt getEnvString
          "\<lparr>environ = [''VECRO_DB_USER'' \<mapsto> ''alice'', ''VECRO_DB_PASSWORD'' \<mapsto> ''hunter2'',
                        ''VECRO_DB_COLLECTION'' \<mapsto> ''orders''],
             jaeger_New = None,
             mongo_Connect = (\<lambda>opts. None), client_Ping = (\<lambda>opts. None)\<rparr>"]
    by blast
qed

text \<open>
  C10. The value of \<^verbatim>\<open>VECRO_DB_PASSWORD\<close> is printed as it is in the startup log. For
  any helper \<^verbatim>\<open>getEnvString\<close> that returns the value of a variable that is set, a run
  with the password \<open>p\<close> logs the line \<^verbatim>\<open>Info db password: p\<close>, and two runs that differ
  only in the value of that variable log different lines.
\<close>

theorem db_password_is_logged:
  assumes gs: "\<And>env key fb v. env key = Some v \<Longrightarrow> fst (gs env key fb) = v"
  shows "(''Info db password: '' @ p) \<in>
           set (log_lines (main gi gs (sys\<lparr>environ := (environ sys)(''VECRO_DB_PASSWORD'' \<mapsto> p)\<rparr>)))
       \<and> (p \<noteq> p' \<longrightarrow>
            log_lines (main gi gs (sys\<lparr>environ := (environ sys)(''VECRO_DB_PASSWORD'' \<mapsto> p)\<rparr>)) \<noteq>
            log_lines (main gi gs (sys\<lparr>environ := (environ sys)(''VECRO_DB_PASSWORD'' \<mapsto> p')\<rparr>)))"
proof -
  let ?run = "\<lambda>v. main gi gs (sys\<lparr>environ := (environ sys)(''VECRO_DB_PASSWORD'' \<mapsto> v)\<rparr>)"
  have got: "fst (gs (environ (sys\<lparr>environ := (environ sys)(''VECRO_DB_PASSWORD'' \<mapsto> v)\<rparr>))
                    ''VECRO_DB_PASSWORD'' []) = v" for v
    by (rule gs) simp
  have line: "\<exists>l0 l1 l2 l3 rest.
      log_lines (?run v) = l0 # l1 # l2 # l3 # (''Info db password: '' @ v) # rest" for v
    using log_lines_password [of gi gs "sys\<lparr>environ := (environ sys)(''VECRO_DB_PASSWORD'' \<mapsto> v)\<rparr>"]
    unfolding got .
  have mem: "(''Info db password: '' @ p) \<in> set (log_lines (?run p))"
    using line [of p] by auto
  have diff: "log_lines (?run p) \<noteq> log_lines (?run p')" if "p \<noteq> p'"
  proof
    assume eq: "log_lines (?run p) = log_lines (?run p')"
    from line [of p] obtain a0 a1 a2 a3 ra where
      a: "log_lines (?run p) = a0 # a1 # a2 # a3 # (''Info db password: '' @ p) # ra" by blast
    from line [of p'] obtain b0 b1 b2 b3 rb where
      b: "log_lines (?run p') = b0 # b1 # b2 # b3 # (''Info db password: '' @ p') # rb" by blast
    from eq a b have "''Info db password: '' @ p = ''Info db password: '' @ p'" by simp
    then have "p = p'" by simp
    with that show False by simp
  qed
  from mem diff show ?thesis by blast
qed

theorem db_password_is_logged_witness:
  "(''Info db password: '' @ ''hunter2'') \<in>
      set (log_lines (main getEnvInt getEnvString
        (\<lparr>environ = Map.empty, jaeger_New = None, mongo_Connect = (\<lambda>opts. None),
          client_Ping = (\<lambda>opts. None)\<rparr>
           \<lparr>environ := (Map.empty)(''VECRO_DB_PASSWORD'' \<mapsto> ''hunter2'')\<rparr>)))
   \<and> log_lines (main getEnvInt getEnvString
        (\<lparr>environ = Map.empty, jaeger_New = None, mongo_Connect = (\<lambda>opts. None),
          client_Ping = (\<lambda>opts. None)\<rparr>
           \<lparr>environ := (Map.empty)(''VECRO_DB_PASSWORD'' \<mapsto> ''hunter2'')\<rparr>)) \<noteq>
     log_lines (main getEnvInt getEnvString
        (\<lparr>environ = Map.empty, jaeger_New = None, mongo_Connect = (\<lambda>opts. None),
          client_Ping = (\<lambda>opts. None)\<rparr>
           \<lparr>environ := (Map.empty)(''VECRO_DB_PASSWORD'' \<mapsto> ''swordfish'')\<rparr>))"
  using db_password_is_logged [of getEnvString "''hunter2''" getEnvInt
        "\<lparr>environ = Map.empty, jaeger_New = None, mongo_Connect = (\<lambda>opts. None),
          client_Ping = (\<lambda>opts. None)\<rparr>" "''swordfish''", OF getEnvString_value]
  by simp

section \<open>Properties of the tracing middleware\<close>

lemma tracingMiddleware_unfold:
  "tracingMiddleware prop tn sn next c rq w =
     (let c1 = (case ctx_request c of Some r \<Rightarrow> prop c (req_header r) | None \<Rightarrow> c);
          sc = new_span_context (ctx_span c1) (next_id w);
          w1 = w\<lparr>events := events w @ [SpanStart tn sn sc (ctx_span c1)],
                 next_id := next_id w + 2\<rparr>;
          nx = next (c1\<lparr>ctx_span := Some sc\<rparr>) rq w1
      in (fst nx, (snd nx)\<lparr>events := events (snd nx) @ [SpanEnd sc]\<rparr>))"
  by (simp add: tracingMiddleware_def tracer_Start_def span_End_def Let_def
      split: prod.splits)

lemma traceContext_Extract_span:
  "ctx_request c = Some r \<Longrightarrow>
   ctx_span (traceContext_Extract parse c (req_header r)) =
     (case extracted parse c of Some p \<Rightarrow> Some p | None \<Rightarrow> ctx_span c)"
  by (simp add: traceContext_Extract_def extracted_def split: option.splits)

lemma traceContext_Extract_update:
  "(traceContext_Extract parse c h)\<lparr>ctx_span := x\<rparr> = c\<lparr>ctx_span := x\<rparr>"
  by (simp add: traceContext_Extract_def split: option.splits)

lemma span_end_once:
  assumes h: "\<exists>c2 sc parent w1 w2.
      events w1 = events w @ [SpanStart tn sn sc parent]
    \<and> next c2 rq w1 = (res, w2)
    \<and> evs = events w2 @ [SpanEnd sc]
    \<and> (SpanEnd sc \<notin> set (events w2) \<longrightarrow> count_list evs (SpanEnd sc) = 1)"
    and frame: "\<And>c2 w1. snd (next c2 rq w1) = w1"
    and ev: "evs = events w @ [SpanStart tn sn sc0 p0, SpanEnd sc0]"
    and fresh: "SpanEnd sc0 \<notin> set (events w)"
  shows "count_list evs (SpanEnd sc0) = 1"
proof -
  from h obtain c2 sc parent w1 w2 where
    a: "events w1 = events w @ [SpanStart tn sn sc parent]"
    and b: "next c2 rq w1 = (res, w2)"
    and d: "evs = events w2 @ [SpanEnd sc]"
    and e: "SpanEnd sc \<notin> set (events w2) \<longrightarrow> count_list evs (SpanEnd sc) = 1" by blast
  from b frame [of c2 w1] have "w2 = w1" by simp
  with a d have "evs = events w @ [SpanStart tn sn sc parent, SpanEnd sc]" by simp
  with ev have s: "sc = sc0" by simp
  from \<open>w2 = w1\<close> a fresh s have "SpanEnd sc \<notin> set (events w2)" by simp
  with e s show ?thesis by simp
qed

text \<open>
  C4. The tracing middleware ends the span it starts on every exit path. Whatever the
  wrapped endpoint \<open>e\<close> does (it returns a response, returns an error, or panics), the
  middleware starts a span, calls \<open>e\<close>, hands on exactly the outcome of \<open>e\<close>, and the last
  thing it does is to end that span: once, so that the span has been ended exactly once
  when the endpoint itself has not ended it.
\<close>

theorem tracing_span_always_ended:
  "\<exists>c2 sc parent w1 w2.
      events w1 = events w @ [SpanStart tn sn sc parent]
    \<and> e c2 rq w1 = (fst (tracingMiddleware prop tn sn e c rq w), w2)
    \<and> events (snd (tracingMiddleware prop tn sn e c rq w)) = events w2 @ [SpanEnd sc]
    \<and> (SpanEnd sc \<notin> set (events w2) \<longrightarrow>
         count_list (events (snd (tracingMiddleware prop tn sn e c rq w))) (SpanEnd sc) = 1)"
proof -
  define c1 where "c1 = (case ctx_request c of Some r \<Rightarrow> prop c (req_header r) | None \<Rightarrow> c)"
  define sc where "sc = new_span_context (ctx_span c1) (next_id w)"
  define w1 where "w1 = w\<lparr>events := events w @ [SpanStart tn sn sc (ctx_span c1)],
                           next_id := next_id w + 2\<rparr>"
  define nx where "nx = e (c1\<lparr>ctx_span := Some sc\<rparr>) rq w1"
  have tm: "tracingMiddleware prop tn sn e c rq w =
              (fst nx, (snd nx)\<lparr>events := events (snd nx) @ [SpanEnd sc]\<rparr>)"
    unfolding tracingMiddleware_unfold Let_def c1_def sc_def w1_def nx_def ..
  have a: "events w1 = events w @ [SpanStart tn sn sc (ctx_span c1)]"
    by (simp add: w1_def)
  have b: "e (c1\<lparr>ctx_span := Some sc\<rparr>) rq w1 =
             (fst (tracingMiddleware prop tn sn e c rq w), snd nx)"
    by (simp add: tm nx_def)
  have d: "events (snd (tracingMiddleware prop tn sn e c rq w)) = events (snd nx) @ [SpanEnd sc]"
    by (simp add: tm)
  have e: "SpanEnd sc \<notin> set (events (snd nx)) \<longrightarrow>
         count_list (events (snd (tracingMiddleware prop tn sn e c rq w))) (SpanEnd sc) = 1"
    by (simp add: d count_list_0_iff)
  from a b d e show ?thesis by blast
qed

theorem tracing_span_always_ended_witness:
  "fst (tracingMiddleware (traceContext_Extract sample_parse) ''vecro-service'' ''BaseRequest''
          panicking_endpoint background (BaseRequest ''x'') idle_world)
     = Panic ''nil pointer dereference''
   \<and> count_list (events (snd (tracingMiddleware (traceContext_Extract sample_parse)
          ''vecro-service'' ''BaseRequest'' panicking_endpoint background (BaseRequest ''x'')
          idle_world))) (SpanEnd \<lparr>sc_trace_id = 1, sc_span_id = 0\<rparr>) = 1
   \<and> fst (tracingMiddleware (traceContext_Extract sample_parse) ''vecro-service'' ''BaseRequest''
          failing_endpoint background (BaseRequest ''x'') idle_world)
     = Return (Inl (StoreOpError ''timeout''))
   \<and> count_list (events (snd (tracingMiddleware (traceContext_Extract sample_parse)
          ''vecro-service'' ''BaseRequest'' failing_endpoint background (BaseRequest ''x'')
          idle_world))) (SpanEnd \<lparr>sc_trace_id = 1, sc_span_id = 0\<rparr>) = 1"
proof -
  let ?P = "traceContext_Extract sample_parse"
  let ?run = "\<lambda>e. tracingMiddleware ?P ''vecro-service'' ''BaseRequest'' e background
                     (BaseRequest ''x'') idle_world"
  have ev: "events (snd (?run e)) =
          events idle_world @ [SpanStart ''vecro-service'' ''BaseRequest''
                                 \<lparr>sc_trace_id = 1, sc_span_id = 0\<rparr> None,
                               SpanEnd \<lparr>sc_trace_id = 1, sc_span_id = 0\<rparr>]"
    if "\<And>c2 w1. snd (e c2 (BaseRequest ''x'') w1) = w1" for e
    using that
    by (simp add: tracingMiddleware_unfold Let_def background_def idle_world_def
        new_span_context_def)
  have fresh: "SpanEnd \<lparr>sc_trace_id = 1, sc_span_id = 0\<rparr> \<notin> set (events idle_world)"
    by (simp add: idle_world_def)
  have fp: "\<And>c2 w1. snd (panicking_endpoint c2 (BaseRequest ''x'') w1) = w1"
    by (simp add: panicking_endpoint_def)
  have ff: "\<And>c2 w1. snd (failing_endpoint c2 (BaseRequest ''x'') w1) = w1"
    by (simp add: failing_endpoint_def)
  have p1: "count_list (events (snd (?run panicking_endpoint)))
              (SpanEnd \<lparr>sc_trace_id = 1, sc_span_id = 0\<rparr>) = 1"
    using tracing_span_always_ended [of idle_world "''vecro-service''" "''BaseRequest''"
            panicking_endpoint "BaseRequest ''x''" "traceContext_Extract sample_parse" background]
          fp ev [of panicking_endpoint, OF fp] fresh
    by (rule span_end_once)
  have f1: "count_list (events (snd (?run failing_endpoint)))
              (SpanEnd \<lparr>sc_trace_id = 1, sc_span_id = 0\<rparr>) = 1"
    using tracing_span_always_ended [of idle_world "''vecro-service''" "''BaseRequest''"
            failing_endpoint "BaseRequest ''x''" "traceContext_Extract sample_parse" background]
          ff ev [of failing_endpoint, OF ff] fresh
    by (rule span_end_once)
  have p2: "fst (?run panicking_endpoint) = Panic ''nil pointer dereference''"
    by (simp add: tracingMiddleware_unfold Let_def panicking_endpoint_def)
  have f2: "fst (?run failing_endpoint) = Return (Inl (StoreOpError ''timeout''))"
    by (simp add: tracingMiddleware_unfold Let_def failing_endpoint_def)
  from p1 p2 f1 f2 show ?thesis by simp
qed

text \<open>
  C5. With the W3C propagator and any parser of the header value: the parent of the span
  the middleware starts is the trace context extracted from the request in the inbound
  context, and the span is then in the trace of that parent; when nothing can be
  extracted, the parent is the span the context already carries, so for a context
  without one, as the transport builds it, the span is a root. In either case the
  wrapped endpoint is called with the context that carries the new span, and its
  outcome is handed on: a missing parent is no error.
\<close>

theorem tracing_parent_from_inbound_context:
  "\<exists>sc parent w1 w2.
      parent = (case extracted parse c of Some p \<Rightarrow> Some p | None \<Rightarrow> ctx_span c)
    \<and> events w1 = events w @ [SpanStart tn sn sc parent]
    \<and> e (c\<lparr>ctx_span := Some sc\<rparr>) rq w1 =
          (fst (tracingMiddleware (traceContext_Extract parse) tn sn e c rq w), w2)
    \<and> snd (tracingMiddleware (traceContext_Extract parse) tn sn e c rq w) = span_End sc w2
    \<and> (\<forall>p. extracted parse c = Some p \<longrightarrow> parent = Some p \<and> sc_trace_id sc = sc_trace_id p)
    \<and> (extracted parse c = None \<and> ctx_span c = None \<longrightarrow> parent = None)"
proof -
  define c1 where "c1 = (case ctx_request c of
                           Some r \<Rightarrow> traceContext_Extract parse c (req_header r) | None \<Rightarrow> c)"
  define parent where "parent = (case extracted parse c of Some p \<Rightarrow> Some p | None \<Rightarrow> ctx_span c)"
  define sc where "sc = new_span_context parent (next_id w)"
  define w1 where "w1 = w\<lparr>events := events w @ [SpanStart tn sn sc parent],
                           next_id := next_id w + 2\<rparr>"
  define nx where "nx = e (c\<lparr>ctx_span := Some sc\<rparr>) rq w1"
  have p: "ctx_span c1 = parent"
    by (cases "ctx_request c")
       (simp_all add: c1_def parent_def traceContext_Extract_span, simp add: extracted_def)
  have u: "c1\<lparr>ctx_span := x\<rparr> = c\<lparr>ctx_span := x\<rparr>" for x
    by (cases "ctx_request c") (simp_all add: c1_def traceContext_Extract_update)
  have tm: "tracingMiddleware (traceContext_Extract parse) tn sn e c rq w =
              (fst nx, span_End sc (snd nx))"
    unfolding tracingMiddleware_unfold Let_def c1_def [symmetric] p
    by (simp add: u sc_def w1_def nx_def span_End_def)
  have a: "events w1 = events w @ [SpanStart tn sn sc parent]"
    by (simp add: w1_def)
  have b: "e (c\<lparr>ctx_span := Some sc\<rparr>) rq w1 =
      (fst (tracingMiddleware (traceContext_Extract parse) tn sn e c rq w), snd nx)"
    by (simp add: tm nx_def)
  have d: "snd (tracingMiddleware (traceContext_Extract parse) tn sn e c rq w) = span_End sc (snd nx)"
    by (simp add: tm)
  have f: "\<forall>p. extracted parse c = Some p \<longrightarrow> parent = Some p \<and> sc_trace_id sc = sc_trace_id p"
    by (simp add: parent_def sc_def new_span_context_def)
  have g: "extracted parse c = None \<and> ctx_span c = None \<longrightarrow> parent = None"
    by (simp add: parent_def)
  from a b d f g parent_def show ?thesis by blast
qed

theorem tracing_parent_from_inbound_context_witness:
  "(\<exists>sc. events (snd (tracingMiddleware (traceContext_Extract sample_parse)
              ''vecro-service'' ''BaseRequest'' ok_endpoint
              (serverBefore background
                 \<lparr>req_header = [(''Traceparent'',
                     ''00-0000000000000000000000000000002a-0000000000000007-01'')]\<rparr>)
              (BaseRequest ''x'') idle_world))
          = [SpanStart ''vecro-service'' ''BaseRequest'' sc (Some \<lparr>sc_trace_id = 42, sc_span_id = 7\<rparr>),
             SpanEnd sc]
        \<and> sc_trace_id sc = 42)
   \<and> (\<exists>sc. events (snd (tracingMiddleware (traceContext_Extract sample_parse)
              ''vecro-service'' ''BaseRequest'' ok_endpoint
              (serverBefore background \<lparr>req_header = []\<rparr>)
              (BaseRequest ''x'') idle_world))
          = [SpanStart ''vecro-service'' ''BaseRequest'' sc None, SpanEnd sc])"
proof -
  let ?hdr = "[(''Traceparent'', ''00-0000000000000000000000000000002a-0000000000000007-01'')]"
  let ?c = "serverBefore background \<lparr>req_header = ?hdr\<rparr>"
  let ?d = "serverBefore background \<lparr>req_header = []\<rparr>"
  have x: "extracted sample_parse ?c = Some \<lparr>sc_trace_id = 42, sc_span_id = 7\<rparr>"
    by (simp add: extracted_def serverBefore_def background_def sample_parse_def)
  have y: "extracted sample_parse ?d = None" "ctx_span ?d = None"
    by (simp_all add: extracted_def serverBefore_def background_def)
  from tracing_parent_from_inbound_context
         [where parse = sample_parse and c = "?c" and w = idle_world
            and tn = "''vecro-service''" and sn = "''BaseRequest''" and e = ok_endpoint
            and rq = "BaseRequest ''x''"]
  obtain sc parent w1 w2 where
    a: "events w1 = events idle_world @ [SpanStart ''vecro-service'' ''BaseRequest'' sc parent]"
    and b: "ok_endpoint (?c\<lparr>ctx_span := Some sc\<rparr>) (BaseRequest ''x'') w1 =
          (fst (tracingMiddleware (traceContext_Extract sample_parse) ''vecro-service''
                  ''BaseRequest'' ok_endpoint ?c (BaseRequest ''x'') idle_world), w2)"
    and d: "snd (tracingMiddleware (traceContext_Extract sample_parse) ''vecro-service''
                  ''BaseRequest'' ok_endpoint ?c (BaseRequest ''x'') idle_world) = span_End sc w2"
    and f: "\<forall>p. extracted sample_parse ?c = Some p \<longrightarrow>
                parent = Some p \<and> sc_trace_id sc = sc_trace_id p"
    by blast
  from b have w2: "w2 = w1" by (simp add: ok_endpoint_def)
  from f x have pr: "parent = Some \<lparr>sc_trace_id = 42, sc_span_id = 7\<rparr>" "sc_trace_id sc = 42"
    by simp_all
  from a d w2 pr have first:
    "events (snd (tracingMiddleware (traceContext_Extract sample_parse) ''vecro-service''
                  ''BaseRequest'' ok_endpoint ?c (BaseRequest ''x'') idle_world))
       = [SpanStart ''vecro-service'' ''BaseRequest'' sc (Some \<lparr>sc_trace_id = 42, sc_span_id = 7\<rparr>),
          SpanEnd sc] \<and> sc_trace_id sc = 42"
    by (simp add: span_End_def idle_world_def)
  from tracing_parent_from_inbound_context
         [where parse = sample_parse and c = "?d" and w = idle_world
            and tn = "''vecro-service''" and sn = "''BaseRequest''" and e = ok_endpoint
            and rq = "BaseRequest ''x''"]
  obtain sc' parent' w1' w2' where
    a': "events w1' = events idle_world @ [SpanStart ''vecro-service'' ''BaseRequest'' sc' parent']"
    and b': "ok_endpoint (?d\<lparr>ctx_span := Some sc'\<rparr>) (BaseRequest ''x'') w1' =
          (fst (tracingMiddleware (traceContext_Extract sample_parse) ''vecro-service''
                  ''BaseRequest'' ok_endpoint ?d (BaseRequest ''x'') idle_world), w2')"
    and d': "snd (tracingMiddleware (traceContext_Extract sample_parse) ''vecro-service''
                  ''BaseRequest'' ok_endpoint ?d (BaseRequest ''x'') idle_world) = span_End sc' w2'"
    and g': "extracted sample_parse ?d = None \<and> ctx_span ?d = None \<longrightarrow> parent' = None"
    by blast
  from b' have w2': "w2' = w1'" by (simp add: ok_endpoint_def)
  from g' y have pr': "parent' = None" by simp
  from a' d' w2' pr' have second:
    "events (snd (tracingMiddleware (traceContext_Extract sample_parse) ''vecro-service''
                  ''BaseRequest'' ok_endpoint ?d (BaseRequest ''x'') idle_world))
       = [SpanStart ''vecro-service'' ''BaseRequest'' sc' None, SpanEnd sc']"
    by (simp add: span_End_def idle_world_def)
  from first second show ?thesis by blast
qed


section \<open>Properties of the workload service\<close>





lemma run_ops_fail:
  "k < length ops \<Longrightarrow>
   (\<forall>i<k. \<exists>m. replies gw ops (store w) ! i = Inr m) \<Longrightarrow>
   replies gw ops (store w) ! k = Inl msg \<Longrightarrow>
   \<exists>w'. run_ops gw ops acc w = (Inl (StoreOpError msg), w')
       \<and> events w' = events w @ map op_event (take (Suc k) ops)"
proof (induction ops arbitrary: acc w k)
  case Nil
  then show ?case by simp
next
  case (Cons op ops)
  obtain r took st' where g: "gateway_call gw op (store w) = (r, took, st')"
    by (cases "gateway_call gw op (store w)") auto
  have rep: "replies gw (op # ops) (store w) = r # replies gw ops st'"
    using g by simp
  show ?case
  proof (cases k)
    case 0
    with Cons.prems(3) rep have "r = Inl msg" by simp
    with g 0 show ?thesis by (simp add: Let_def)
  next
    case (Suc j)
    from Cons.prems(2) rep Suc have "\<exists>m. r = Inr m" by fastforce
    then obtain m where m: "r = Inr m" ..
    define w1 where "w1 = w\<lparr>events := events w @ [op_event op],
                             clock := clock w + took, store := st'\<rparr>"
    have s: "store w1 = st'" and e: "events w1 = events w @ [op_event op]"
      by (simp_all add: w1_def)
    have j: "j < length ops" using Cons.prems(1) Suc by simp
    have ok: "\<forall>i<j. \<exists>m. replies gw ops (store w1) ! i = Inr m"
    proof (intro allI impI)
      fix i assume "i < j"
      then have "Suc i < k" using Suc by simp
      with Cons.prems(2) have "\<exists>m. replies gw (op # ops) (store w) ! Suc i = Inr m" by blast
      then show "\<exists>m. replies gw ops (store w1) ! i = Inr m" by (simp add: g s)
    qed
    have bad: "replies gw ops (store w1) ! j = Inl msg"
      using Cons.prems(3) Suc by (simp add: g s)
    from Cons.IH [OF j ok bad, of "acc + m"] obtain w' where
      "run_ops gw ops (acc + m) w1 = (Inl (StoreOpError msg), w')"
      "events w' = events w1 @ map op_event (take (Suc j) ops)" by blast
    with g m Suc e show ?thesis by (simp add: Let_def w1_def)
  qed
qed

lemma run_ops_events:
  "\<exists>n. events (snd (run_ops gw ops acc w)) = events w @ map op_event (take n ops)"
proof (induction ops arbitrary: acc w)
  case Nil
  then show ?case by simp
next
  case (Cons op ops)
  obtain r took st' where g: "gateway_call gw op (store w) = (r, took, st')"
    by (cases "gateway_call gw op (store w)") auto
  define w1 where "w1 = w\<lparr>events := events w @ [op_event op],
                           clock := clock w + took, store := st'\<rparr>"
  have e: "events w1 = events w @ [op_event op]" by (simp add: w1_def)
  show ?case
  proof (cases r)
    case (Inl msg)
    with g have "events (snd (run_ops gw (op # ops) acc w)) =
                   events w @ map op_event (take (Suc 0) (op # ops))"
      by (simp add: Let_def)
    then show ?thesis by blast
  next
    case (Inr m)
    from Cons.IH [of "acc + m" w1] obtain n where
      "events (snd (run_ops gw ops (acc + m) w1)) = events w1 @ map op_event (take n ops)" by blast
    with g Inr e have "events (snd (run_ops gw (op # ops) acc w)) =
                   events w @ map op_event (take (Suc n) (op # ops))"
      by (simp add: Let_def w1_def)
    then show ?thesis by blast
  qed
qed

lemma Execute_events:
  "\<exists>n. events (snd (Execute gw svc c p w)) = events w @ map op_event (take n (workload svc))"
proof -
  have "snd (Execute gw svc c p w) = snd (run_ops gw (workload svc) 0 w)"
    by (simp add: Execute_def split: prod.splits sum.splits)
  then show ?thesis using run_ops_events [of gw "workload svc" 0 w] by simp
qed




lemma workload_2_0:
  "workload \<lparr>dbCollection = items, dbReadOps = 2, dbWriteOps = 0\<rparr> = [Read, Read]"
  by (simp add: workload_def numeral_2_eq_2)



text \<open>
  C3. When the \<open>k\<close>-th gateway operation of a call is the first to fail, with
  \<open>1 \<le> k \<le> r + w\<close>, the service returns a store-operation error with the gateway's
  message, and the gateway has been called exactly \<open>k\<close> times: the first \<open>k\<close> operations
  of the workload and none after them.
\<close>

theorem execute_stops_at_first_failure:
  assumes "1 \<le> k" and "k \<le> nat (dbReadOps svc) + nat (dbWriteOps svc)"
    and "\<forall>i<k - 1. \<exists>m. replies gw (workload svc) (store w) ! i = Inr m"
    and "replies gw (workload svc) (store w) ! (k - 1) = Inl msg"
  shows "\<exists>w' evs. Execute gw svc c p w = (Inl (StoreOpError msg), w')
           \<and> events w' = events w @ evs
           \<and> evs = map op_event (take k (workload svc))
           \<and> length evs = k"
proof -
  have len: "length (workload svc) = nat (dbReadOps svc) + nat (dbWriteOps svc)"
    by (simp add: workload_def)
  with assms(1,2) have k: "k - 1 < length (workload svc)" by simp
  from run_ops_fail [OF k assms(3) assms(4), of 0] obtain w' where
    r: "run_ops gw (workload svc) 0 w = (Inl (StoreOpError msg), w')"
    and e: "events w' = events w @ map op_event (take (Suc (k - 1)) (workload svc))" by blast
  from assms(1) have sk: "Suc (k - 1) = k" by simp
  from r have "Execute gw svc c p w = (Inl (StoreOpError msg), w')"
    by (simp add: Execute_def)
  moreover have "length (map op_event (take k (workload svc))) = k"
    using assms(2) len by simp
  ultimately show ?thesis using e sk by simp
qed

theorem execute_stops_at_first_failure_witness:
  "\<exists>w'. Execute second_call_fails \<lparr>dbCollection = items, dbReadOps = 2, dbWriteOps = 0\<rparr>
           background ''payload'' idle_world = (Inl (StoreOpError ''timeout''), w')
       \<and> events w' = [GatewayRead, GatewayRead]"
proof -
  let ?svc = "\<lparr>dbCollection = items, dbReadOps = 2, dbWriteOps = 0\<rparr>"
  have r: "replies second_call_fails (workload ?svc) (store idle_world) = [Inr 10, Inl ''timeout'']"
    by (simp add: workload_2_0 idle_world_def second_call_fails_def gateway_call_def)
  have h1: "(1::nat) \<le> 2" by simp
  have h2: "(2::nat) \<le> nat (dbReadOps ?svc) + nat (dbWriteOps ?svc)" by simp
  have h3: "\<forall>i<2 - 1. \<exists>m. replies second_call_fails (workload ?svc) (store idle_world) ! i = Inr m"
    by (simp add: r)
  have h4: "replies second_call_fails (workload ?svc) (store idle_world) ! (2 - 1) = Inl ''timeout''"
    by (simp add: r)
  from execute_stops_at_first_failure [OF h1 h2 h3 h4, of background "''payload''"]
  show ?thesis
    by (auto simp add: workload_2_0 idle_world_def op_event_def)
qed


section \<open>Properties of the finalizer\<close>

lemma bit_length_le: "n < 2 ^ k \<Longrightarrow> bit_length n \<le> k"
proof (induction k arbitrary: n)
  case 0
  then show ?case by (simp add: bit_length.simps)
next
  case (Suc k)
  show ?case
  proof (cases "n = 0")
    case True
    then show ?thesis by (simp add: bit_length.simps)
  next
    case False
    from Suc.prems have "n div 2 < 2 ^ k" by simp
    then have "bit_length (n div 2) \<le> k" by (rule Suc.IH)
    with False show ?thesis by (subst bit_length.simps) simp
  qed
qed

lemma bit_length_pow2: "bit_length (2 ^ k) = Suc k"
  by (induction k) (simp_all add: bit_length.simps [of "Suc 0"] bit_length.simps [of 0] bit_length.simps [of "2 * x" for x])

lemma float64_small: "\<bar>i\<bar> < 2 ^ 53 \<Longrightarrow> float64 i = i"
proof -
  assume "\<bar>i\<bar> < 2 ^ 53"
  then have "nat \<bar>i\<bar> < 2 ^ 53" by simp
  then have "bit_length (nat \<bar>i\<bar>) \<le> 53" by (rule bit_length_le)
  then show ?thesis by (simp add: float64_def Let_def)
qed

lemma float64_pow53: "float64 (2 ^ 53) = 2 ^ 53"
proof -
  have n: "nat \<bar>2 ^ 53 :: int\<bar> = 2 ^ 53" by simp
  have b: "bit_length (2 ^ 53) = 54" using bit_length_pow2 [of 53] by simp
  show ?thesis
    unfolding float64_def Let_def n b by simp
qed

lemma float64_exact: "0 \<le> i \<Longrightarrow> i \<le> 2 ^ 53 \<Longrightarrow> float64 i = i"
  using float64_small [of i] float64_pow53 by (cases "i = 2 ^ 53") simp_all

lemma float64_nonneg:
  assumes "0 \<le> i"
  shows "0 \<le> float64 i"
proof -
  from assms have s: "0 \<le> sgn i" by (simp add: sgn_if)
  have p: "0 \<le> sgn i * int x" for x
    using s by (intro mult_nonneg_nonneg) simp_all
  show ?thesis
  proof (cases "bit_length (nat \<bar>i\<bar>) \<le> 53")
    case True
    with assms show ?thesis by (simp add: float64_def Let_def)
  next
    case False
    then show ?thesis
      unfolding float64_def Let_def by (simp only: if_False p)
  qed
qed

text \<open>
  C8. The finalizer reads the size of the encoded response from the context and adds
  it to the throughput counter, once: for every size that is not negative it logs the
  size and calls \<^verbatim>\<open>throughput.Add\<close> one time, with \<^verbatim>\<open>float64(responseSize)\<close>, and for a
  size of up to \<open>2 ^ 53\<close> bytes, which covers every response there can be, that number
  is exactly the size.
\<close>

theorem finalizer_adds_response_size:
  assumes "ctx_response_size c = Some n" and "0 \<le> sint n"
  shows "serverFinalizer c code r w =
           (Return (), w\<lparr>events := events w @
              [LogLine (println [''Info reponse_size:'', show_int (sint n)]),
               ThroughputAdd (float64 (sint n))]\<rparr>)
         \<and> (sint n \<le> 2 ^ 53 \<longrightarrow> float64 (sint n) = sint n)"
proof
  from assms(2) have "0 \<le> float64 (sint n)" by (rule float64_nonneg)
  with assms(1) show "serverFinalizer c code r w =
           (Return (), w\<lparr>events := events w @
              [LogLine (println [''Info reponse_size:'', show_int (sint n)]),
               ThroughputAdd (float64 (sint n))]\<rparr>)"
    by (simp add: serverFinalizer_def throughput_Add_def Let_def)
next
  from assms(2) show "sint n \<le> 2 ^ 53 \<longrightarrow> float64 (sint n) = sint n"
    by (simp add: float64_exact)
qed

theorem finalizer_adds_response_size_witness:
  "serverFinalizer (background\<lparr>ctx_response_size := Some 1024\<rparr>) 200 \<lparr>req_header = []\<rparr> idle_world =
     (Return (), idle_world\<lparr>events := events idle_world @
        [LogLine (println [''Info reponse_size:'', show_int (sint (1024 :: 64 word))]),
         ThroughputAdd (sint (1024 :: 64 word))]\<rparr>)"
proof -
  have h1: "ctx_response_size (background\<lparr>ctx_response_size := Some 1024\<rparr>) = Some 1024"
    by simp
  have h2: "0 \<le> sint (1024 :: 64 word)" by simp
  have h3: "sint (1024 :: 64 word) \<le> 2 ^ 53" by simp
  from finalizer_adds_response_size [OF h1 h2, of 200 "\<lparr>req_header = []\<rparr>" idle_world] h3
  show ?thesis by simp
qed

section \<open>Properties of the composed pipeline\<close>

lemma main_pipeline_unfold:
  "main_pipeline lm im mk prop base =
     tracingMiddleware prop ''vecro-service'' ''BaseRequest'' (mk (im (lm base)))"
  by (simp add: main_pipeline_def Let_def)

lemma wrapped_service_events:
  assumes "events (snd (base c p (w\<lparr>events := events w @ [LogEntry ''Execute'']\<rparr>))) =
             events w @ [LogEntry ''Execute''] @ evs"
  shows "\<exists>err d1 d2.
           events (snd (makeBaseEndPoint (instrumentingMiddleware (loggingMiddleware base))
                          c (BaseRequest p) w)) =
             events w @ [LogEntry ''Execute''] @ evs @
               [LogExit ''Execute'' err d1, RequestCountAdd 1, LatencyCounterAdd d2,
                LatencyHistogramObserve d2]"
  using assms
  by (simp add: makeBaseEndPoint_def instrumentingMiddleware_def loggingMiddleware_def
      Let_def case_prod_beta)

text \<open>
  C1, as amended. \<^verbatim>\<open>main\<close> nests the layers as Tracing around the endpoint of
  Instrumenting(Logging(Base Workload Service)), whatever the middlewares are. With the
  middlewares of the spec, one call leaves its effects in this order: the span starts,
  the logging layer logs the entry, the service calls the gateway, the logging layer
  logs the exit, the instrumenting layer updates its three metrics, the span ends. So
  the instrumenting layer is outside the logging layer.
\<close>

theorem pipeline_nesting_order:
  "main_pipeline lm im mk prop base =
     tracingMiddleware prop ''vecro-service'' ''BaseRequest'' (mk (im (lm base)))
   \<and> (\<exists>sc parent n err d1 d2.
        events (snd (main_pipeline loggingMiddleware instrumentingMiddleware makeBaseEndPoint
                       prop (Execute gw svc) c (BaseRequest p) w)) =
          events w @
          [SpanStart ''vecro-service'' ''BaseRequest'' sc parent, LogEntry ''Execute''] @
          map op_event (take n (workload svc)) @
          [LogExit ''Execute'' err d1,
           RequestCountAdd 1, LatencyCounterAdd d2, LatencyHistogramObserve d2,
           SpanEnd sc])"
proof
  show "main_pipeline lm im mk prop base =
     tracingMiddleware prop ''vecro-service'' ''BaseRequest'' (mk (im (lm base)))"
    by (rule main_pipeline_unfold)
next
  define c1 where "c1 = (case ctx_request c of Some r \<Rightarrow> prop c (req_header r) | None \<Rightarrow> c)"
  define sc where "sc = new_span_context (ctx_span c1) (next_id w)"
  define w1 where "w1 = w\<lparr>events := events w @
                           [SpanStart ''vecro-service'' ''BaseRequest'' sc (ctx_span c1)],
                           next_id := next_id w + 2\<rparr>"
  define c2 where "c2 = c1\<lparr>ctx_span := Some sc\<rparr>"
  define inner where
    "inner = makeBaseEndPoint (instrumentingMiddleware (loggingMiddleware (Execute gw svc)))"
  have run: "snd (main_pipeline loggingMiddleware instrumentingMiddleware makeBaseEndPoint
                       prop (Execute gw svc) c (BaseRequest p) w) =
               (snd (inner c2 (BaseRequest p) w1))
                 \<lparr>events := events (snd (inner c2 (BaseRequest p) w1)) @ [SpanEnd sc]\<rparr>"
    unfolding main_pipeline_unfold tracingMiddleware_unfold Let_def
    by (simp add: c1_def sc_def w1_def c2_def inner_def)
  from Execute_events [of gw svc c2 p "w1\<lparr>events := events w1 @ [LogEntry ''Execute'']\<rparr>"]
  obtain n where
    "events (snd (Execute gw svc c2 p (w1\<lparr>events := events w1 @ [LogEntry ''Execute'']\<rparr>))) =
       events w1 @ [LogEntry ''Execute''] @ map op_event (take n (workload svc))"
    by auto
  from wrapped_service_events
         [of "Execute gw svc" c2 p w1 "map op_event (take n (workload svc))", OF this]
  obtain err d1 d2 where
    "events (snd (inner c2 (BaseRequest p) w1)) =
       events w1 @ [LogEntry ''Execute''] @ map op_event (take n (workload svc)) @
         [LogExit ''Execute'' err d1, RequestCountAdd 1, LatencyCounterAdd d2,
          LatencyHistogramObserve d2]"
    unfolding inner_def by blast
  with run have
    "events (snd (main_pipeline loggingMiddleware instrumentingMiddleware makeBaseEndPoint
                       prop (Execute gw svc) c (BaseRequest p) w)) =
          events w @
          [SpanStart ''vecro-service'' ''BaseRequest'' sc (ctx_span c1), LogEntry ''Execute''] @
          map op_event (take n (workload svc)) @
          [LogExit ''Execute'' err d1,
           RequestCountAdd 1, LatencyCounterAdd d2, LatencyHistogramObserve d2,
           SpanEnd sc]"
    by (simp add: w1_def)
  then show "\<exists>sc parent n err d1 d2.
        events (snd (main_pipeline loggingMiddleware instrumentingMiddleware makeBaseEndPoint
                       prop (Execute gw svc) c (BaseRequest p) w)) =
          events w @
          [SpanStart ''vecro-service'' ''BaseRequest'' sc parent, LogEntry ''Execute''] @
          map op_event (take n (workload svc)) @
          [LogExit ''Execute'' err d1,
           RequestCountAdd 1, LatencyCounterAdd d2, LatencyHistogramObserve d2,
           SpanEnd sc]"
    by blast
qed

lemma workload_1_0:
  "workload \<lparr>dbCollection = items, dbReadOps = 1, dbWriteOps = 0\<rparr> = [Read]"
  by (simp add: workload_def)

lemma main_pipeline_run:
  "events (snd (main_pipeline loggingMiddleware instrumentingMiddleware makeBaseEndPoint
        (traceContext_Extract sample_parse)
        (Execute steady_gateway \<lparr>dbCollection = items, dbReadOps = 1, dbWriteOps = 0\<rparr>)
        background (BaseRequest ''x'') idle_world))
     = [SpanStart ''vecro-service'' ''BaseRequest'' \<lparr>sc_trace_id = 1, sc_span_id = 0\<rparr> None,
        LogEntry ''Execute'', GatewayRead, LogExit ''Execute'' None 1,
        RequestCountAdd 1, LatencyCounterAdd 1, LatencyHistogramObserve 1,
        SpanEnd \<lparr>sc_trace_id = 1, sc_span_id = 0\<rparr>]"
  by (simp add: main_pipeline_unfold tracingMiddleware_unfold makeBaseEndPoint_def
      instrumentingMiddleware_def loggingMiddleware_def Execute_def workload_1_0
      gateway_call_def steady_gateway_def op_event_def new_span_context_def
      background_def idle_world_def Let_def)

lemma spec_pipeline_run:
  "events (snd (spec_pipeline loggingMiddleware instrumentingMiddleware makeBaseEndPoint
        (traceContext_Extract sample_parse)
        (Execute steady_gateway \<lparr>dbCollection = items, dbReadOps = 1, dbWriteOps = 0\<rparr>)
        background (BaseRequest ''x'') idle_world))
     = [SpanStart ''vecro-service'' ''BaseRequest'' \<lparr>sc_trace_id = 1, sc_span_id = 0\<rparr> None,
        LogEntry ''Execute'', GatewayRead,
        RequestCountAdd 1, LatencyCounterAdd 1, LatencyHistogramObserve 1,
        LogExit ''Execute'' None 1,
        SpanEnd \<lparr>sc_trace_id = 1, sc_span_id = 0\<rparr>]"
  by (simp add: spec_pipeline_def tracingMiddleware_unfold makeBaseEndPoint_def
      instrumentingMiddleware_def loggingMiddleware_def Execute_def workload_1_0
      gateway_call_def steady_gateway_def op_event_def new_span_context_def
      background_def idle_world_def Let_def)

text \<open>
  C1, as stated, fails: in the order Tracing, Logging, Instrumenting the metrics would
  be updated before the exit is logged. For a service with one read the pipeline of
  \<^verbatim>\<open>main\<close> logs the exit first, and it differs from the pipeline in the words of the
  spec.
\<close>

theorem pipeline_order_counterexample:
  "events (snd (main_pipeline loggingMiddleware instrumentingMiddleware makeBaseEndPoint
        (traceContext_Extract sample_parse)
        (Execute steady_gateway \<lparr>dbCollection = items, dbReadOps = 1, dbWriteOps = 0\<rparr>)
        background (BaseRequest ''x'') idle_world))
     = [SpanStart ''vecro-service'' ''BaseRequest'' \<lparr>sc_trace_id = 1, sc_span_id = 0\<rparr> None,
        LogEntry ''Execute'', GatewayRead, LogExit ''Execute'' None 1,
        RequestCountAdd 1, LatencyCounterAdd 1, LatencyHistogramObserve 1,
        SpanEnd \<lparr>sc_trace_id = 1, sc_span_id = 0\<rparr>]
   \<and> main_pipeline loggingMiddleware instrumentingMiddleware makeBaseEndPoint
        (traceContext_Extract sample_parse)
        (Execute steady_gateway \<lparr>dbCollection = items, dbReadOps = 1, dbWriteOps = 0\<rparr>)
        background (BaseRequest ''x'') idle_world
     \<noteq> spec_pipeline loggingMiddleware instrumentingMiddleware makeBaseEndPoint
        (traceContext_Extract sample_parse)
        (Execute steady_gateway \<lparr>dbCollection = items, dbReadOps = 1, dbWriteOps = 0\<rparr>)
        background (BaseRequest ''x'') idle_world"
proof
  show "events (snd (main_pipeline loggingMiddleware instrumentingMiddleware makeBaseEndPoint
        (traceContext_Extract sample_parse)
        (Execute steady_gateway \<lparr>dbCollection = items, dbReadOps = 1, dbWriteOps = 0\<rparr>)
        background (BaseRequest ''x'') idle_world))
     = [SpanStart ''vecro-service'' ''BaseRequest'' \<lparr>sc_trace_id = 1, sc_span_id = 0\<rparr> None,
        LogEntry ''Execute'', GatewayRead, LogExit ''Execute'' None 1,
        RequestCountAdd 1, LatencyCounterAdd 1, LatencyHistogramObserve 1,
        SpanEnd \<lparr>sc_trace_id = 1, sc_span_id = 0\<rparr>]"
    by (rule main_pipeline_run)
next
  show "main_pipeline loggingMiddleware instrumentingMiddleware makeBaseEndPoint
        (traceContext_Extract sample_parse)
        (Execute steady_gateway \<lparr>dbCollection = items, dbReadOps = 1, dbWriteOps = 0\<rparr>)
        background (BaseRequest ''x'') idle_world
     \<noteq> spec_pipeline loggingMiddleware instrumentingMiddleware makeBaseEndPoint
        (traceContext_Extract sample_parse)
        (Execute steady_gateway \<lparr>dbCollection = items, dbReadOps = 1, dbWriteOps = 0\<rparr>)
        background (BaseRequest ''x'') idle_world"
  proof
    assume "main_pipeline loggingMiddleware instrumentingMiddleware makeBaseEndPoint
        (traceContext_Extract sample_parse)
        (Execute steady_gateway \<lparr>dbCollection = items, dbReadOps = 1, dbWriteOps = 0\<rparr>)
        background (BaseRequest ''x'') idle_world
     = spec_pipeline loggingMiddleware instrumentingMiddleware makeBaseEndPoint
        (traceContext_Extract sample_parse)
        (Execute steady_gateway \<lparr>dbCollection = items, dbReadOps = 1, dbWriteOps = 0\<rparr>)
        background (BaseRequest ''x'') idle_world"
    then have "events (snd (main_pipeline loggingMiddleware instrumentingMiddleware makeBaseEndPoint
        (traceContext_Extract sample_parse)
        (Execute steady_gateway \<lparr>dbCollection = items, dbReadOps = 1, dbWriteOps = 0\<rparr>)
        background (BaseRequest ''x'') idle_world))
     = events (snd (spec_pipeline loggingMiddleware instrumentingMiddleware makeBaseEndPoint
        (traceContext_Extract sample_parse)
        (Execute steady_gateway \<lparr>dbCollection = items, dbReadOps = 1, dbWriteOps = 0\<rparr>)
        background (BaseRequest ''x'') idle_world))"
      by simp
    then show False
      unfolding main_pipeline_run spec_pipeline_run by simp
  qed
qed

end
